theory Spec2Isabelle
  imports Main "HOL-Library.Sublist" "HOL-Library.AList"
begin

section \<open>Python strings\<close>

text \<open>
  A Python \<open>str\<close> is modelled as a \<^typ>\<open>string\<close>, one \<^typ>\<open>char\<close> per character
  (the characters of the model are those with codes 0 to 255).  The built-in operations
  used by \<^verbatim>\<open>gui/settings_dialogs.py\<close> are:
  \<^item> \<^verbatim>\<open>a in b\<close> on two strings, the substring test: \<^term>\<open>sublist a b\<close>;
  \<^item> \<^verbatim>\<open>s.startswith(p)\<close>: \<^term>\<open>prefix p s\<close>;
  \<^item> \<^verbatim>\<open>not s\<close>: \<^term>\<open>s = []\<close>;
  \<^item> \<^verbatim>\<open>s.lower()\<close>: \<open>lower\<close> below, which maps the letters A to Z to a to z and
    leaves every other character alone;
  \<^item> \<^verbatim>\<open>c * n\<close> and \<^verbatim>\<open>s[i:]\<close> with Python's integers, which may be negative.
\<close>

definition lower_char :: "char \<Rightarrow> char" where
  "lower_char c =
     (let n = (of_char c :: nat) in if 65 \<le> n \<and> n \<le> 90 then char_of (n + 32) else c)"

definition lower :: "string \<Rightarrow> string" where
  "lower s = map lower_char s"

definition py_repeat :: "char \<Rightarrow> int \<Rightarrow> string" where
  \<comment> \<open>\<^verbatim>\<open>c * n\<close>: the empty string when \<open>n\<close> is zero or negative.\<close>
  "py_repeat c n = (if n \<le> 0 then [] else replicate (nat n) c)"

definition py_slice_from :: "string \<Rightarrow> int \<Rightarrow> string" where
  \<comment> \<open>\<^verbatim>\<open>s[i:]\<close>: a negative start counts from the end and is clamped to 0.\<close>
  "py_slice_from s i =
     (let n = int (length s);
          j = (if i < 0 then max 0 (n + i) else min i n)
      in drop (nat j) s)"

section \<open>The debug view: log buffer and filter\<close>

text \<open>
  The widgets of \<^verbatim>\<open>DebugViewDialog\<close> that hold state: the list \<^verbatim>\<open>logMessages\<close>, the
  read-only \<^verbatim>\<open>textEdit\<close> (the paragraphs appended to it, in order), the text of
  \<^verbatim>\<open>filterLineEdit\<close> and the items of \<^verbatim>\<open>filterList\<close>, each with its text and its
  Qt check state.
\<close>

datatype CheckState = Unchecked | PartiallyChecked | Checked

record QListWidgetItem =
  item_text :: string
  item_checkState :: CheckState

record DebugViewDialog =
  logMessages :: "string list"
  textEdit :: "string list"
  filterLineEdit :: string
  filterList :: "QListWidgetItem list"

definition init_DebugViewDialog :: DebugViewDialog where
  "init_DebugViewDialog =
     \<lparr>logMessages = [], textEdit = [], filterLineEdit = [], filterList = []\<rparr>"

text \<open>
  The two loops of \<^verbatim>\<open>apply_filter\<close>,
  \<^verbatim>\<open>for message in self.logMessages: if <test>: self.textEdit.append(message)\<close>,
  with the test as a parameter and the text edit's paragraphs as the accumulator.
\<close>

fun append_matching :: "(string \<Rightarrow> bool) \<Rightarrow> string list \<Rightarrow> string list \<Rightarrow> string list" where
  "append_matching test [] te = te"
| "append_matching test (message # rest) te =
     append_matching test rest (if test message then te @ [message] else te)"

definition is_checked :: "QListWidgetItem \<Rightarrow> bool" where
  "is_checked it = (item_checkState it = Checked)"

definition apply_filter :: "DebugViewDialog \<Rightarrow> DebugViewDialog" where
  "apply_filter s =
     (let is_any_filter_selected = list_ex is_checked (filterList s);
          s1 = s\<lparr>textEdit := []\<rparr>
      in if is_any_filter_selected then
           (let selected_filters = map (\<lambda>it. lower (item_text it)) (filter is_checked (filterList s1))
            in s1\<lparr>textEdit :=
                    append_matching
                      (\<lambda>message. list_ex (\<lambda>filter_word. sublist filter_word (lower message))
                                   selected_filters)
                      (logMessages s1) (textEdit s1)\<rparr>)
         else
           (let filter_text = lower (filterLineEdit s1)
            in s1\<lparr>textEdit :=
                    append_matching (\<lambda>message. sublist filter_text (lower message))
                      (logMessages s1) (textEdit s1)\<rparr>))"

definition append_text_slot :: "string \<Rightarrow> DebugViewDialog \<Rightarrow> DebugViewDialog" where
  "append_text_slot message s =
     apply_filter (s\<lparr>textEdit := textEdit s @ [message],
                     logMessages := logMessages s @ [message]\<rparr>)"

definition clear_log_window :: "DebugViewDialog \<Rightarrow> DebugViewDialog" where
  "clear_log_window s = s\<lparr>textEdit := [], logMessages := []\<rparr>"

definition add_filter_word :: "DebugViewDialog \<Rightarrow> DebugViewDialog" where
  "add_filter_word s =
     (let filter_word = filterLineEdit s
      in if filter_word = [] then s
         else apply_filter
                (s\<lparr>filterList := filterList s @
                      [\<lparr>item_text = filter_word, item_checkState = Unchecked\<rparr>]\<rparr>))"

text \<open>
  The two signal connections made in \<^verbatim>\<open>__init__\<close>:
  \<^verbatim>\<open>filterLineEdit.textChanged.connect(self.apply_filter)\<close> and
  \<^verbatim>\<open>filterList.itemChanged.connect(self.apply_filter)\<close>.  Typing in the line edit, or
  ticking the check box of item \<open>i\<close>, changes the widget and then runs \<open>apply_filter\<close>.
  An index outside the list changes nothing.
\<close>

definition text_changed :: "string \<Rightarrow> DebugViewDialog \<Rightarrow> DebugViewDialog" where
  "text_changed t s = apply_filter (s\<lparr>filterLineEdit := t\<rparr>)"

definition item_changed :: "nat \<Rightarrow> CheckState \<Rightarrow> DebugViewDialog \<Rightarrow> DebugViewDialog" where
  "item_changed i c s =
     (if i < length (filterList s)
      then apply_filter (s\<lparr>filterList := (filterList s)[i := (filterList s ! i)\<lparr>item_checkState := c\<rparr>]\<rparr>)
      else s)"

text \<open>The specification's \<open>render()\<close>: what the text edit shows after \<open>apply_filter\<close>.\<close>

definition render :: "DebugViewDialog \<Rightarrow> string list" where
  "render s = textEdit (apply_filter s)"

section \<open>The client settings dialog\<close>

subsection \<open>Dictionaries, the environment and the settings file\<close>

text \<open>
  A Python \<open>dict\<close> from strings to strings is an association list in insertion order:
  \<^verbatim>\<open>d[k] = v\<close> replaces the value of a key in place or appends a new pair, which is
  \<^const>\<open>AList.update\<close>; \<^verbatim>\<open>d.update(other)\<close> does so for every pair of \<open>other\<close>
  in order; \<^verbatim>\<open>d.get(k, default)\<close> is a lookup with a fallback.
  \<^verbatim>\<open>os.environ\<close> and the files on disk are maps from names to contents.
\<close>

type_synonym pydict = "(string \<times> string) list"
type_synonym environ = "string \<rightharpoonup> string"
type_synonym files = "string \<rightharpoonup> string"

definition dict_get :: "pydict \<Rightarrow> string \<Rightarrow> string \<Rightarrow> string" where
  "dict_get d k dflt = (case map_of d k of None \<Rightarrow> dflt | Some v \<Rightarrow> v)"

definition dict_update :: "pydict \<Rightarrow> pydict \<Rightarrow> pydict" where
  "dict_update d other = foldl (\<lambda>acc (k, v). AList.update k v acc) d other"

definition getenv :: "environ \<Rightarrow> string \<Rightarrow> string \<Rightarrow> string" where
  "getenv env var dflt = (case env var of None \<Rightarrow> dflt | Some v \<Rightarrow> v)"

datatype error = JSONDecodeError

subsection \<open>The client type enumeration\<close>

text \<open>
  \<^verbatim>\<open>AIClientType\<close> is imported from \<^verbatim>\<open>azure.ai.assistant.management.ai_client_factory\<close>;
  its declaration is not part of this module.  The module uses it as an \<^verbatim>\<open>Enum\<close> class
  with the members \<^verbatim>\<open>OPEN_AI\<close> and \<^verbatim>\<open>AZURE_OPEN_AI\<close>: it iterates over the class,
  reads \<^verbatim>\<open>.name\<close> of a member and looks a member up by name with
  \<^verbatim>\<open>AIClientType[text]\<close>.

  \<^verbatim>\<open>apply_settings\<close> compares the combo box's text, a \<^verbatim>\<open>str\<close>, with a member:
  \<^verbatim>\<open>ai_client_type == AIClientType.OPEN_AI\<close>.  What that comparison returns is fixed by
  the missing declaration, so the model takes it as the parameter \<open>enum_eq\<close>.  For an
  \<^verbatim>\<open>Enum\<close> class without a \<^verbatim>\<open>str\<close> mix-in, Python's \<^verbatim>\<open>==\<close> between a string and a
  member is always \<^verbatim>\<open>False\<close>: that is \<open>plain_enum_eq\<close>.  The comparison
  \<^verbatim>\<open>ai_client_type == AIClientType.OPEN_AI.name\<close>, which \<^verbatim>\<open>set_initial_states\<close> uses
  on the same kind of string, is \<open>name_eq\<close>.
\<close>

datatype AIClientType = AZURE_OPEN_AI | OPEN_AI

fun name :: "AIClientType \<Rightarrow> string" where
  "name AZURE_OPEN_AI = ''AZURE_OPEN_AI''"
| "name OPEN_AI = ''OPEN_AI''"

definition plain_enum_eq :: "string \<Rightarrow> AIClientType \<Rightarrow> bool" where
  "plain_enum_eq s member = False"

definition name_eq :: "string \<Rightarrow> AIClientType \<Rightarrow> bool" where
  "name_eq s member = (s = name member)"

subsection \<open>The dialog\<close>

text \<open>
  The state of \<^verbatim>\<open>ClientSettingsDialog\<close> that \<^verbatim>\<open>apply_settings\<close> reads: the current
  text of the two combo boxes and of the four line edits.  \<^verbatim>\<open>self.settings\<close> is passed
  on its own, since \<^verbatim>\<open>init_settings\<close> fills it before the widgets exist.
\<close>

record ClientSettingsDialog =
  clientSelection :: string
  openai_api_key_input :: string
  azure_api_key_input :: string
  azure_endpoint_input :: string
  azure_api_version_input :: string
  model_selection :: string

definition config_folder :: string where
  "config_folder = ''config''"

definition file_name :: string where
  "file_name = ''chat_completion_settings.json''"

definition file_path :: string where
  \<comment> \<open>\<^verbatim>\<open>os.path.join(self.config_folder, self.file_name)\<close>, with the separator \<open>/\<close>.\<close>
  "file_path = config_folder @ ''/'' @ file_name"

text \<open>
  \<^verbatim>\<open>load_settings\<close>: \<^verbatim>\<open>json.load\<close> is the parameter \<open>json_load\<close>, from the file's
  text to the loaded dictionary or the exception it raises.
\<close>

definition load_settings :: "(string \<Rightarrow> error + pydict) \<Rightarrow> files \<Rightarrow> pydict \<Rightarrow> error + pydict" where
  "load_settings json_load fs settings =
     (case fs file_path of
        None \<Rightarrow> Inr settings
      | Some content \<Rightarrow>
          (case json_load content of
             Inl e \<Rightarrow> Inl e
           | Inr loaded_settings \<Rightarrow> Inr (dict_update settings loaded_settings)))"

definition init_settings :: "(string \<Rightarrow> error + pydict) \<Rightarrow> files \<Rightarrow> error + pydict" where
  \<comment> \<open>\<^verbatim>\<open>self.settings = {}; self.load_settings()\<close>: the settings of a fresh instance.\<close>
  "init_settings json_load fs = load_settings json_load fs []"

definition set_key_input_value :: "string \<Rightarrow> environ \<Rightarrow> string \<Rightarrow> string" where
  \<comment> \<open>The text of \<open>input_field\<close> afterwards; it is set only when the key is not empty.\<close>
  "set_key_input_value input_field env env_var =
     (let key = getenv env env_var []
      in if key \<noteq> [] then
           (let obscured_key = py_repeat (CHR ''*'') (int (length key) - 4) @ py_slice_from key (- 4)
            in obscured_key)
         else input_field)"

definition save_environment_variable :: "string \<Rightarrow> string \<Rightarrow> environ \<Rightarrow> environ" where
  "save_environment_variable var_name v env =
     (if v \<noteq> [] \<and> \<not> prefix ''*******'' v then env(var_name \<mapsto> v) else env)"

definition save_settings :: "string \<Rightarrow> files \<Rightarrow> files" where
  "save_settings settings_json fs = fs(file_path \<mapsto> settings_json)"

text \<open>
  \<^verbatim>\<open>apply_settings\<close> either shows \<^verbatim>\<open>QMessageBox.critical\<close> with a message and returns,
  or writes the environment and the file and calls \<^verbatim>\<open>self.accept()\<close>.
  \<^verbatim>\<open>json.dumps(settings, indent=4)\<close> is the parameter \<open>json_dumps\<close>.
\<close>

datatype apply_outcome = Critical string | Accepted

definition apply_settings ::
  "(string \<Rightarrow> AIClientType \<Rightarrow> bool) \<Rightarrow> (pydict \<Rightarrow> string) \<Rightarrow>
   ClientSettingsDialog \<Rightarrow> files \<Rightarrow> environ \<Rightarrow> apply_outcome \<times> files \<times> environ" where
  "apply_settings enum_eq json_dumps d fs env =
     (let ai_client_type = clientSelection d
      in if enum_eq ai_client_type OPEN_AI \<and> openai_api_key_input d = [] then
           (Critical ''OpenAI API Key is required when applying OpenAI settings.'', fs, env)
         else if enum_eq ai_client_type AZURE_OPEN_AI \<and>
                 (azure_api_key_input d = [] \<or> azure_endpoint_input d = []) then
           (Critical ''Azure OpenAI API Key and Endpoint are required when applying Azure OpenAI settings.'',
            fs, env)
         else
           (let settings = [(''ai_client_type'', ai_client_type),
                            (''model'', model_selection d),
                            (''api_version'', azure_api_version_input d)];
                env1 = save_environment_variable ''OPENAI_API_KEY'' (openai_api_key_input d) env;
                env2 = save_environment_variable ''AZURE_OPENAI_API_KEY'' (azure_api_key_input d) env1;
                env3 = save_environment_variable ''AZURE_OPENAI_ENDPOINT'' (azure_endpoint_input d) env2;
                fs' = save_settings (json_dumps settings) fs
            in (Accepted, fs', env3)))"

subsection \<open>A JSON reader and writer for dictionaries of strings\<close>

text \<open>
  An instance of the two parameters \<open>json_dumps\<close> and \<open>json_load\<close>, on which the
  round trip through the settings file can be run: \<open>json_dumps_indent4\<close> lays a dictionary
  of strings out as \<^verbatim>\<open>json.dumps(d, indent=4)\<close> does (one member per line behind four
  spaces, a comma after every member but the last, a colon and a space between key and
  value, every character outside the printable ASCII range escaped), and \<open>json_load_strings\<close> reads a JSON object whose values are strings, one
  character at a time.  Any other text is a decoding error of this reader.
\<close>

definition dquote :: char where "dquote = CHR 0x22"
definition backslash :: char where "backslash = CHR 0x5C"
definition newline :: char where "newline = CHR 0x0A"

definition hexdigit :: "nat \<Rightarrow> char" where
  "hexdigit n = (if n < 10 then char_of (48 + n) else char_of (87 + n))"

definition json_escape_char :: "char \<Rightarrow> string" where
  "json_escape_char c =
     (let n = (of_char c :: nat)
      in if c = dquote then [backslash, dquote]
         else if c = backslash then [backslash, backslash]
         else if n = 10 then [backslash, CHR ''n'']
         else if n = 13 then [backslash, CHR ''r'']
         else if n = 9 then [backslash, CHR ''t'']
         else if n = 8 then [backslash, CHR ''b'']
         else if n = 12 then [backslash, CHR ''f'']
         else if n < 32 \<or> 126 < n then
           [backslash, CHR ''u'', CHR ''0'', CHR ''0'', hexdigit (n div 16), hexdigit (n mod 16)]
         else [c])"

definition json_quote :: "string \<Rightarrow> string" where
  "json_quote s = dquote # concat (map json_escape_char s) @ [dquote]"

fun join :: "string \<Rightarrow> string list \<Rightarrow> string" where
  "join sep [] = []"
| "join sep [x] = x"
| "join sep (x # y # ys) = x @ sep @ join sep (y # ys)"

definition json_dumps_indent4 :: "pydict \<Rightarrow> string" where
  "json_dumps_indent4 d =
     (if d = [] then ''{}''
      else ''{'' @ [newline] @
           join ('','' @ [newline])
             (map (\<lambda>(k, v). ''    '' @ json_quote k @ '': '' @ json_quote v) d) @
           [newline] @ ''}'')"

datatype jstate =
    J_start
  | J_first
  | J_key
  | J_colon string
  | J_value string
  | J_next
  | J_end
  | J_string "string option" string
  | J_escape "string option" string
  | J_unicode "string option" string "nat list"

definition is_ws :: "char \<Rightarrow> bool" where
  "is_ws c = (c = CHR '' '' \<or> c = CHR 0x09 \<or> c = CHR 0x0A \<or> c = CHR 0x0D)"

definition hexval :: "char \<Rightarrow> nat option" where
  "hexval c =
     (let n = (of_char c :: nat)
      in if 48 \<le> n \<and> n \<le> 57 then Some (n - 48)
         else if 97 \<le> n \<and> n \<le> 102 then Some (n - 87)
         else if 65 \<le> n \<and> n \<le> 70 then Some (n - 55)
         else None)"

definition unescape :: "char \<Rightarrow> char option" where
  "unescape c =
     (if c = dquote then Some dquote
      else if c = backslash then Some backslash
      else if c = CHR ''/'' then Some (CHR ''/'')
      else if c = CHR ''b'' then Some (CHR 0x08)
      else if c = CHR ''f'' then Some (CHR 0x0C)
      else if c = CHR ''n'' then Some (CHR 0x0A)
      else if c = CHR ''r'' then Some (CHR 0x0D)
      else if c = CHR ''t'' then Some (CHR 0x09)
      else None)"

definition close_string :: "string option \<Rightarrow> string \<Rightarrow> pydict \<Rightarrow> jstate \<times> pydict" where
  "close_string ctx acc ps =
     (case ctx of
        None \<Rightarrow> (J_colon (rev acc), ps)
      | Some k \<Rightarrow> (J_next, AList.update k (rev acc) ps))"

fun json_step :: "jstate \<Rightarrow> pydict \<Rightarrow> char \<Rightarrow> (jstate \<times> pydict) option" where
  "json_step J_start ps c =
     (if is_ws c then Some (J_start, ps)
      else if c = CHR ''{'' then Some (J_first, ps) else None)"
| "json_step J_first ps c =
     (if is_ws c then Some (J_first, ps)
      else if c = dquote then Some (J_string None [], ps)
      else if c = CHR ''}'' then Some (J_end, ps) else None)"
| "json_step J_key ps c =
     (if is_ws c then Some (J_key, ps)
      else if c = dquote then Some (J_string None [], ps) else None)"
| "json_step (J_colon k) ps c =
     (if is_ws c then Some (J_colon k, ps)
      else if c = CHR '':'' then Some (J_value k, ps) else None)"
| "json_step (J_value k) ps c =
     (if is_ws c then Some (J_value k, ps)
      else if c = dquote then Some (J_string (Some k) [], ps) else None)"
| "json_step J_next ps c =
     (if is_ws c then Some (J_next, ps)
      else if c = CHR '','' then Some (J_key, ps)
      else if c = CHR ''}'' then Some (J_end, ps) else None)"
| "json_step J_end ps c = (if is_ws c then Some (J_end, ps) else None)"
| "json_step (J_string ctx acc) ps c =
     (if c = dquote then Some (close_string ctx acc ps)
      else if c = backslash then Some (J_escape ctx acc, ps)
      else if (of_char c :: nat) < 32 then None
      else Some (J_string ctx (c # acc), ps))"
| "json_step (J_escape ctx acc) ps c =
     (if c = CHR ''u'' then Some (J_unicode ctx acc [], ps)
      else (case unescape c of
              None \<Rightarrow> None
            | Some ch \<Rightarrow> Some (J_string ctx (ch # acc), ps)))"
| "json_step (J_unicode ctx acc ds) ps c =
     (case hexval c of
        None \<Rightarrow> None
      | Some v \<Rightarrow>
          if length ds = 3 then
            (let n = foldl (\<lambda>a x. 16 * a + x) 0 (ds @ [v])
             in if n < 256 then Some (J_string ctx (char_of n # acc), ps) else None)
          else Some (J_unicode ctx acc (ds @ [v]), ps))"

fun json_run :: "jstate \<Rightarrow> pydict \<Rightarrow> string \<Rightarrow> (jstate \<times> pydict) option" where
  "json_run st ps [] = Some (st, ps)"
| "json_run st ps (c # cs) =
     (case json_step st ps c of
        None \<Rightarrow> None
      | Some (st', ps') \<Rightarrow> json_run st' ps' cs)"

definition json_load_strings :: "string \<Rightarrow> error + pydict" where
  "json_load_strings content =
     (case json_run J_start [] content of
        Some (J_end, ps) \<Rightarrow> Inr ps
      | _ \<Rightarrow> Inl JSONDecodeError)"

section \<open>The log buffer and filter: properties\<close>

lemma append_matching_filter: "append_matching test ms te = te @ filter test ms"
  by (induction ms arbitrary: te) simp_all

lemma textEdit_apply_filter:
  "textEdit (apply_filter s) =
     (if list_ex is_checked (filterList s)
      then filter (\<lambda>message. list_ex (\<lambda>filter_word. sublist filter_word (lower message))
                     (map (\<lambda>it. lower (item_text it)) (filter is_checked (filterList s))))
             (logMessages s)
      else filter (\<lambda>message. sublist (lower (filterLineEdit s)) (lower message)) (logMessages s))"
  by (simp add: apply_filter_def Let_def append_matching_filter)

lemma apply_filter_frame:
  "logMessages (apply_filter s) = logMessages s"
  "filterList (apply_filter s) = filterList s"
  "filterLineEdit (apply_filter s) = filterLineEdit s"
  by (simp_all add: apply_filter_def Let_def)

text \<open>
  C7: \<open>clear_log_window\<close> empties the log buffer and the text edit, and leaves the
  filter list (every item's text and check state) and the quick-filter text as they were,
  whatever the state before.
\<close>

theorem clear_log_window_frame:
  "logMessages (clear_log_window s) = [] \<and>
   textEdit (clear_log_window s) = [] \<and>
   filterList (clear_log_window s) = filterList s \<and>
   filterLineEdit (clear_log_window s) = filterLineEdit s"
  by (simp add: clear_log_window_def)

lemma render_eq:
  "render s =
     (if list_ex is_checked (filterList s)
      then filter (\<lambda>message. list_ex (\<lambda>filter_word. sublist filter_word (lower message))
                     (map (\<lambda>it. lower (item_text it)) (filter is_checked (filterList s))))
             (logMessages s)
      else filter (\<lambda>message. sublist (lower (filterLineEdit s)) (lower message)) (logMessages s))"
  by (simp add: render_def textEdit_apply_filter)

lemma render_apply_filter: "render (apply_filter s) = render s"
  by (simp add: render_eq apply_filter_frame)

lemma textEdit_apply_filter_render: "textEdit (apply_filter s) = render s"
  by (simp add: render_def)

lemma logMessages_appends:
  "logMessages (foldl (\<lambda>s m. append_text_slot m s) s0 ms) = logMessages s0 @ ms"
  by (induction ms arbitrary: s0) (simp_all add: append_text_slot_def apply_filter_frame)

lemma selected_words_item_changed:
  assumes i: "i < length fl" and j: "j < length fl" and ij: "i \<noteq> j"
    and same: "item_text (fl ! i) = item_text (fl ! j)" and cj: "is_checked (fl ! j)"
  shows "set (map (\<lambda>it. lower (item_text it))
            (filter is_checked (fl[i := (fl ! i)\<lparr>item_checkState := Unchecked\<rparr>])))
         = set (map (\<lambda>it. lower (item_text it)) (filter is_checked fl))"
    (is "?L = ?R")
proof
  let ?fl' = "fl[i := (fl ! i)\<lparr>item_checkState := Unchecked\<rparr>]"
  show "?L \<subseteq> ?R"
  proof
    fix w assume "w \<in> ?L"
    then obtain it where it: "it \<in> set ?fl'" "is_checked it" "w = lower (item_text it)"
      by auto
    then obtain k where k: "k < length fl" "?fl' ! k = it"
      by (auto simp: in_set_conv_nth)
    with it have "k \<noteq> i" by (auto simp: is_checked_def)
    with k have "fl ! k = it" by simp
    with k have "it \<in> set fl" by (metis nth_mem)
    with it show "w \<in> ?R" by auto
  qed
  show "?R \<subseteq> ?L"
  proof
    fix w assume "w \<in> ?R"
    then obtain it where it: "it \<in> set fl" "is_checked it" "w = lower (item_text it)"
      by auto
    then obtain k where k: "k < length fl" "fl ! k = it"
      by (auto simp: in_set_conv_nth)
    show "w \<in> ?L"
    proof (cases "k = i")
      case True
      with k it same have "w = lower (item_text (fl ! j))" by simp
      moreover have "?fl' ! j = fl ! j" using ij by simp
      then have "fl ! j \<in> set ?fl'" using j by (metis length_list_update nth_mem)
      ultimately show ?thesis using cj by auto
    next
      case False
      then have "?fl' ! k = it" using k by simp
      then have "it \<in> set ?fl'" using k by (metis length_list_update nth_mem)
      with it show ?thesis by auto
    qed
  qed
qed

lemma render_cong_words:
  assumes "list_ex is_checked (filterList s)" "list_ex is_checked (filterList t)"
    and "set (map (\<lambda>it. lower (item_text it)) (filter is_checked (filterList s)))
         = set (map (\<lambda>it. lower (item_text it)) (filter is_checked (filterList t)))"
    and "logMessages s = logMessages t"
  shows "render s = render t"
  using assms unfolding render_eq list_ex_iff by simp

text \<open>
  C2: when at least one item of the filter list is checked, \<open>render\<close> shows exactly the
  buffered messages whose lower-cased text contains the lower-cased word of at least one
  checked item as a substring, in buffer order; the text of the quick filter does not
  change the result.
\<close>

theorem enabled_filters_or:
  assumes "\<exists>it \<in> set (filterList s). item_checkState it = Checked"
  shows "render s =
           filter (\<lambda>m. \<exists>it \<in> set (filterList s).
                          item_checkState it = Checked \<and> sublist (lower (item_text it)) (lower m))
             (logMessages s)
         \<and> render (s\<lparr>filterLineEdit := q\<rparr>) = render s"
proof -
  from assms have sel: "list_ex is_checked (filterList s)"
    by (auto simp: list_ex_iff is_checked_def)
  have "render s = filter (\<lambda>m. \<exists>it \<in> set (filterList s).
                          item_checkState it = Checked \<and> sublist (lower (item_text it)) (lower m))
             (logMessages s)"
    unfolding render_def textEdit_apply_filter using sel
    by (auto simp: list_ex_iff is_checked_def intro!: filter_cong)
  moreover have "render (s\<lparr>filterLineEdit := q\<rparr>) = render s"
    unfolding render_def textEdit_apply_filter using sel by simp
  ultimately show ?thesis by simp
qed

text \<open>
  C2, the specification's scenario: the word of the checked item matches one of three
  messages, and the quick-filter text, which would match the two others, is ignored.
\<close>

theorem enabled_filters_or_witness:
  "render \<lparr>logMessages = [''INFO start'', ''ERROR bad thing'', ''INFO done''],
           textEdit = [], filterLineEdit = ''info'',
           filterList = [\<lparr>item_text = ''Error'', item_checkState = Checked\<rparr>,
                         \<lparr>item_text = ''info'', item_checkState = Unchecked\<rparr>]\<rparr>
     = [''ERROR bad thing'']"
proof -
  let ?s = "\<lparr>logMessages = [''INFO start'', ''ERROR bad thing'', ''INFO done''],
           textEdit = [], filterLineEdit = ''info'',
           filterList = [\<lparr>item_text = ''Error'', item_checkState = Checked\<rparr>,
                         \<lparr>item_text = ''info'', item_checkState = Unchecked\<rparr>]\<rparr>"
  have h: "\<exists>it \<in> set (filterList ?s). item_checkState it = Checked" by simp
  have a: "sublist ''error'' ''error bad thing''" by code_simp
  have b: "\<not> sublist ''error'' ''info start''" by code_simp
  have c: "\<not> sublist ''error'' ''info done''" by code_simp
  have l: "lower ''Error'' = ''error''" "lower ''INFO start'' = ''info start''"
    "lower ''ERROR bad thing'' = ''error bad thing''" "lower ''INFO done'' = ''info done''"
    by code_simp+
  from enabled_filters_or [OF h, of "''info''"] show ?thesis
    by (simp add: l a b c)
qed

text \<open>
  C3: when no item of the filter list is checked, \<open>render\<close> shows exactly the buffered
  messages for which the quick-filter text is empty or, lower-cased, a substring of the
  lower-cased message; with an empty quick filter it shows the whole buffer unchanged.
\<close>

theorem quick_filter_fallback:
  assumes "\<forall>it \<in> set (filterList s). item_checkState it \<noteq> Checked"
  shows "render s =
           filter (\<lambda>m. filterLineEdit s = [] \<or> sublist (lower (filterLineEdit s)) (lower m))
             (logMessages s)
         \<and> (filterLineEdit s = [] \<longrightarrow> render s = logMessages s)"
proof -
  from assms have nosel: "\<not> list_ex is_checked (filterList s)"
    by (simp add: list_ex_iff is_checked_def)
  have empty: "filterLineEdit s = [] \<Longrightarrow> sublist (lower (filterLineEdit s)) (lower m)" for m
    by (simp add: lower_def)
  have "render s = filter (\<lambda>m. filterLineEdit s = [] \<or> sublist (lower (filterLineEdit s)) (lower m))
             (logMessages s)"
    using nosel empty by (auto simp: render_eq intro!: filter_cong)
  moreover have "filterLineEdit s = [] \<Longrightarrow> render s = logMessages s"
    using nosel by (simp add: render_eq lower_def)
  ultimately show ?thesis by simp
qed

text \<open>
  C3, the specification's scenario: the only item is unchecked and the quick filter
  selects the two messages that contain its text.
\<close>

theorem quick_filter_fallback_witness:
  "render \<lparr>logMessages = [''INFO start'', ''ERROR bad thing'', ''INFO done''],
           textEdit = [], filterLineEdit = ''info'',
           filterList = [\<lparr>item_text = ''error'', item_checkState = Unchecked\<rparr>]\<rparr>
     = [''INFO start'', ''INFO done'']"
proof -
  let ?s = "\<lparr>logMessages = [''INFO start'', ''ERROR bad thing'', ''INFO done''],
           textEdit = [], filterLineEdit = ''info'',
           filterList = [\<lparr>item_text = ''error'', item_checkState = Unchecked\<rparr>]\<rparr>"
  have h: "\<forall>it \<in> set (filterList ?s). item_checkState it \<noteq> Checked" by simp
  have l: "lower ''info'' = ''info''" "lower ''INFO start'' = ''info start''"
    "lower ''ERROR bad thing'' = ''error bad thing''" "lower ''INFO done'' = ''info done''"
    by code_simp+
  have a: "sublist ''info'' ''info start''" by code_simp
  have b: "\<not> sublist ''info'' ''error bad thing''" by code_simp
  have c: "sublist ''info'' ''info done''" by code_simp
  from quick_filter_fallback [OF h] show ?thesis
    by (simp add: l a b c)
qed

text \<open>
  C6: what \<open>render\<close> shows is the buffer filtered by a test on single messages, hence a
  subsequence of the buffer: the messages shown keep their insertion order and their
  multiplicity.  This holds for every state, in particular after any sequence of
  \<open>append_text_slot\<close>, which itself leaves the text edit equal to \<open>render\<close>.
\<close>

theorem render_preserves_order:
  "subseq (render s) (logMessages s) \<and>
   (\<exists>test. render s = filter test (logMessages s)) \<and>
   subseq (render (foldl (\<lambda>s m. append_text_slot m s) s0 ms)) (logMessages s0 @ ms) \<and>
   textEdit (append_text_slot m s) = render (append_text_slot m s)"
proof -
  have f: "\<exists>test. render s = filter test (logMessages s)" for s
    by (cases "list_ex is_checked (filterList s)") (auto simp: render_eq)
  then have sub: "subseq (render s) (logMessages s)" for s
    by (metis subseq_filter_left)
  have "subseq (render (foldl (\<lambda>s m. append_text_slot m s) s0 ms)) (logMessages s0 @ ms)"
    using sub [of "foldl (\<lambda>s m. append_text_slot m s) s0 ms"]
    by (simp add: logMessages_appends)
  moreover have "textEdit (append_text_slot m s) = render (append_text_slot m s)"
    by (simp add: append_text_slot_def render_apply_filter textEdit_apply_filter_render)
  ultimately show ?thesis using f sub by blast
qed

text \<open>
  C5 as stated fails on a word of white space only: with a single space in the line edit,
  \<open>add_filter_word\<close> appends an item to the empty filter list.
\<close>

theorem add_filter_word_whitespace_counterexample:
  "filterList (add_filter_word (init_DebugViewDialog\<lparr>filterLineEdit := '' ''\<rparr>))
     = [\<lparr>item_text = '' '', item_checkState = Unchecked\<rparr>] \<and>
   filterList (init_DebugViewDialog\<lparr>filterLineEdit := '' ''\<rparr>) = []"
  by (simp add: add_filter_word_def init_DebugViewDialog_def apply_filter_frame Let_def)

text \<open>
  C5, amended: \<open>add_filter_word\<close> changes nothing when the line edit is empty; for every
  other text, white space included, it appends one unchecked item with that text, without
  looking for duplicates, keeps the buffer and the line edit, and shows the re-applied
  filter.  Adding twice gives two items.  Of two items with the same text, unchecking one
  while the other is checked leaves what \<open>render\<close> shows unchanged.
\<close>

theorem add_filter_word_appends:
  "(filterLineEdit s = [] \<longrightarrow> add_filter_word s = s) \<and>
   (filterLineEdit s \<noteq> [] \<longrightarrow>
      filterList (add_filter_word s) =
        filterList s @ [\<lparr>item_text = filterLineEdit s, item_checkState = Unchecked\<rparr>] \<and>
      filterList (add_filter_word (add_filter_word s)) =
        filterList s @ [\<lparr>item_text = filterLineEdit s, item_checkState = Unchecked\<rparr>,
                        \<lparr>item_text = filterLineEdit s, item_checkState = Unchecked\<rparr>] \<and>
      logMessages (add_filter_word s) = logMessages s \<and>
      filterLineEdit (add_filter_word s) = filterLineEdit s \<and>
      textEdit (add_filter_word s) = render (add_filter_word s)) \<and>
   (i < length (filterList s) \<and> j < length (filterList s) \<and> i \<noteq> j \<and>
    item_text (filterList s ! i) = item_text (filterList s ! j) \<and>
    item_checkState (filterList s ! j) = Checked \<longrightarrow>
      render (item_changed i Unchecked s) = render s)"
proof -
  have a: "filterLineEdit s = [] \<Longrightarrow> add_filter_word s = s"
    by (simp add: add_filter_word_def)
  have b: "filterLineEdit s \<noteq> [] \<Longrightarrow>
      filterList (add_filter_word s) =
        filterList s @ [\<lparr>item_text = filterLineEdit s, item_checkState = Unchecked\<rparr>] \<and>
      logMessages (add_filter_word s) = logMessages s \<and>
      filterLineEdit (add_filter_word s) = filterLineEdit s \<and>
      textEdit (add_filter_word s) = render (add_filter_word s)" for s
    by (simp add: add_filter_word_def apply_filter_frame render_apply_filter
        textEdit_apply_filter_render)
  have c: "filterLineEdit s \<noteq> [] \<Longrightarrow>
      filterList (add_filter_word (add_filter_word s)) =
        filterList s @ [\<lparr>item_text = filterLineEdit s, item_checkState = Unchecked\<rparr>,
                        \<lparr>item_text = filterLineEdit s, item_checkState = Unchecked\<rparr>]"
    using b [of s] b [of "add_filter_word s"] by simp
  have d: "render (item_changed i Unchecked s) = render s"
    if i: "i < length (filterList s)" and j: "j < length (filterList s)" and ij: "i \<noteq> j"
      and same: "item_text (filterList s ! i) = item_text (filterList s ! j)"
      and cj: "item_checkState (filterList s ! j) = Checked"
  proof -
    let ?fl' = "(filterList s)[i := (filterList s ! i)\<lparr>item_checkState := Unchecked\<rparr>]"
    let ?t = "s\<lparr>filterList := ?fl'\<rparr>"
    have cj': "is_checked (filterList s ! j)" using cj by (simp add: is_checked_def)
    have "filterList s ! j \<in> set (filterList s)" using j by simp
    then have s1: "list_ex is_checked (filterList s)" using cj' by (auto simp: list_ex_iff)
    have "?fl' ! j = filterList s ! j" using ij by simp
    then have "filterList s ! j \<in> set ?fl'" using j by (metis length_list_update nth_mem)
    then have s2: "list_ex is_checked (filterList ?t)" using cj' by (auto simp: list_ex_iff)
    have "render ?t = render s"
      using s2 s1 selected_words_item_changed [OF i j ij same cj']
      by (intro render_cong_words) simp_all
    then show ?thesis using i by (simp add: item_changed_def render_apply_filter)
  qed
  show ?thesis using a b [of s] c d by blast
qed


text \<open>
  C5, amended, on concrete states: an empty line edit changes nothing; pressing Enter
  twice on the same word gives two unchecked items; with both items of a duplicated word
  checked, unchecking the first leaves the filter of the second in force.
\<close>

theorem add_filter_word_appends_witness:
  "add_filter_word init_DebugViewDialog = init_DebugViewDialog \<and>
   filterList (add_filter_word (add_filter_word (init_DebugViewDialog\<lparr>filterLineEdit := ''error''\<rparr>)))
     = [\<lparr>item_text = ''error'', item_checkState = Unchecked\<rparr>,
        \<lparr>item_text = ''error'', item_checkState = Unchecked\<rparr>] \<and>
   render (item_changed 0 Unchecked
      \<lparr>logMessages = [''INFO start'', ''ERROR bad thing'', ''INFO done''],
       textEdit = [], filterLineEdit = [],
       filterList = [\<lparr>item_text = ''error'', item_checkState = Checked\<rparr>,
                     \<lparr>item_text = ''error'', item_checkState = Checked\<rparr>]\<rparr>)
     = [''ERROR bad thing'']"
proof -
  let ?s0 = "init_DebugViewDialog"
  let ?s1 = "init_DebugViewDialog\<lparr>filterLineEdit := ''error''\<rparr>"
  let ?s2 = "\<lparr>logMessages = [''INFO start'', ''ERROR bad thing'', ''INFO done''],
       textEdit = [], filterLineEdit = [],
       filterList = [\<lparr>item_text = ''error'', item_checkState = Checked\<rparr>,
                     \<lparr>item_text = ''error'', item_checkState = Checked\<rparr>]\<rparr>"
  have a: "add_filter_word ?s0 = ?s0"
    using add_filter_word_appends [of ?s0] by (simp add: init_DebugViewDialog_def)
  have b: "filterList (add_filter_word (add_filter_word ?s1))
     = [\<lparr>item_text = ''error'', item_checkState = Unchecked\<rparr>,
        \<lparr>item_text = ''error'', item_checkState = Unchecked\<rparr>]"
    using add_filter_word_appends [of ?s1] by (simp add: init_DebugViewDialog_def)
  have c: "render (item_changed 0 Unchecked ?s2) = render ?s2"
    using add_filter_word_appends [of ?s2 0 1] by simp
  have l: "lower ''error'' = ''error''" "lower ''INFO start'' = ''info start''"
    "lower ''ERROR bad thing'' = ''error bad thing''" "lower ''INFO done'' = ''info done''"
    by code_simp+
  have m: "sublist ''error'' ''error bad thing''" "\<not> sublist ''error'' ''info start''"
    "\<not> sublist ''error'' ''info done''"
    by code_simp+
  have "render ?s2 = [''ERROR bad thing'']"
    by (simp add: render_eq is_checked_def l m)
  with a b c show ?thesis by simp
qed

section \<open>The client settings dialog: properties\<close>

text \<open>
  Had \<open>apply_settings\<close> compared the combo box's text with the members' names, as
  \<open>set_initial_states\<close> does, the two checks for required fields would reject the dialog
  and leave the file and the environment alone.
\<close>

lemma apply_settings_name_eq_rejects:
  assumes "clientSelection d = ''OPEN_AI'' \<and> openai_api_key_input d = [] \<or>
           clientSelection d = ''AZURE_OPEN_AI'' \<and>
             (azure_api_key_input d = [] \<or> azure_endpoint_input d = [])"
  shows "\<exists>msg. apply_settings name_eq json_dumps d fs env = (Critical msg, fs, env)"
  using assms by (auto simp: apply_settings_def name_eq_def Let_def)

text \<open>
  C1: with \<open>AIClientType\<close> a plain enumeration, the string from the combo box never equals
  a member, so neither check for required fields can fire: \<open>apply_settings\<close> accepts every
  dialog.  With the client \<open>AZURE_OPEN_AI\<close>, an empty Azure key and an empty endpoint, it
  writes the settings file and stores the OpenAI key in the environment.
\<close>

theorem apply_settings_plain_enum_accepts:
  "fst (apply_settings plain_enum_eq json_dumps d fs env) = Accepted \<and>
   apply_settings plain_enum_eq json_dumps
     \<lparr>clientSelection = ''AZURE_OPEN_AI'', openai_api_key_input = ''sk-new'',
      azure_api_key_input = [], azure_endpoint_input = [],
      azure_api_version_input = ''2023-09-01-preview'', model_selection = ''gpt-4''\<rparr>
     Map.empty Map.empty
   = (Accepted,
      [file_path \<mapsto> json_dumps [(''ai_client_type'', ''AZURE_OPEN_AI''), (''model'', ''gpt-4''),
                                (''api_version'', ''2023-09-01-preview'')]],
      [''OPENAI_API_KEY'' \<mapsto> ''sk-new''])"
  by (simp add: apply_settings_def plain_enum_eq_def Let_def save_environment_variable_def
      save_settings_def)

text \<open>
  The masked text that \<open>set_key_input_value\<close> shows starts with seven asterisks when the
  stored key has at least eleven characters; \<open>save_environment_variable\<close> then skips it.
\<close>

lemma stars_prefix: "7 \<le> k \<Longrightarrow> prefix ''*******'' (replicate k (CHR ''*'') @ rest)"
proof -
  assume "7 \<le> k"
  then have "replicate k (CHR ''*'') = replicate 7 (CHR ''*'') @ replicate (k - 7) (CHR ''*'')"
    by (simp flip: replicate_add)
  moreover have "replicate 7 (CHR ''*'') = ''*******''"
    by code_simp
  ultimately show ?thesis by simp
qed

lemma masked_long_key_not_written:
  assumes "env var = Some key" "11 \<le> length key"
  shows "save_environment_variable var' (set_key_input_value field env var) env' = env'"
proof -
  from assms have "set_key_input_value field env var =
      replicate (length key - 4) (CHR ''*'') @ py_slice_from key (- 4)"
    by (auto simp: set_key_input_value_def getenv_def py_repeat_def Let_def nat_diff_distrib')
  moreover have "7 \<le> length key - 4" using assms by simp
  ultimately show ?thesis
    by (simp add: save_environment_variable_def stars_prefix)
qed

text \<open>
  C4: for a stored key of eight characters the masked text has four asterisks only, the
  test for seven does not recognise it, and Apply on the untouched dialog replaces the
  stored key by its masked text.
\<close>

theorem masked_short_key_written_back:
  "set_key_input_value [] [''OPENAI_API_KEY'' \<mapsto> ''abcdefgh''] ''OPENAI_API_KEY'' = ''****efgh'' \<and>
   save_environment_variable ''OPENAI_API_KEY''
     (set_key_input_value [] [''OPENAI_API_KEY'' \<mapsto> ''abcdefgh''] ''OPENAI_API_KEY'')
     [''OPENAI_API_KEY'' \<mapsto> ''abcdefgh''] ''OPENAI_API_KEY'' = Some ''****efgh'' \<and>
   snd (snd (apply_settings enum_eq json_dumps
     \<lparr>clientSelection = ''OPEN_AI'',
      openai_api_key_input =
        set_key_input_value [] [''OPENAI_API_KEY'' \<mapsto> ''abcdefgh''] ''OPENAI_API_KEY'',
      azure_api_key_input = ''azure-key'', azure_endpoint_input = ''https://example.openai.azure.com/'',
      azure_api_version_input = ''2023-09-01-preview'', model_selection = ''gpt-4''\<rparr>
     fs [''OPENAI_API_KEY'' \<mapsto> ''abcdefgh''])) ''OPENAI_API_KEY'' = Some ''****efgh''"
proof -
  have m: "set_key_input_value [] [''OPENAI_API_KEY'' \<mapsto> ''abcdefgh''] ''OPENAI_API_KEY'' = ''****efgh''"
    by (simp add: set_key_input_value_def getenv_def py_repeat_def py_slice_from_def Let_def
        eval_nat_numeral)
  show ?thesis
    unfolding m
    by (simp add: apply_settings_def Let_def save_environment_variable_def)
qed

text \<open>
  C8: when \<open>apply_settings\<close> succeeds, a fresh instance that loads the settings file gets
  the dictionary of exactly the three fields \<open>ai_client_type\<close>, \<open>model\<close> and
  \<open>api_version\<close> with the dialog's values, for every pair of JSON writer and reader that
  round-trips this dictionary, whatever the file system held before.
\<close>

theorem apply_then_load_round_trip:
  assumes ok: "apply_settings enum_eq json_dumps d fs env = (Accepted, fs', env')"
    and rt: "json_load (json_dumps [(''ai_client_type'', clientSelection d),
                                    (''model'', model_selection d),
                                    (''api_version'', azure_api_version_input d)])
             = Inr [(''ai_client_type'', clientSelection d),
                    (''model'', model_selection d),
                    (''api_version'', azure_api_version_input d)]"
  shows "init_settings json_load fs' =
           Inr [(''ai_client_type'', clientSelection d),
                (''model'', model_selection d),
                (''api_version'', azure_api_version_input d)]"
proof -
  from ok have "fs' = fs(file_path \<mapsto> json_dumps [(''ai_client_type'', clientSelection d),
                                    (''model'', model_selection d),
                                    (''api_version'', azure_api_version_input d)])"
    by (auto simp: apply_settings_def Let_def save_settings_def split: if_splits)
  then show ?thesis
    using rt by (simp add: init_settings_def load_settings_def dict_update_def)
qed

text \<open>
  C8, the specification's round trip: client \<open>OPEN_AI\<close>, model \<open>gpt-4\<close>, empty API
  version, written with \<open>json_dumps_indent4\<close> and read back with \<open>json_load_strings\<close>.
\<close>

theorem apply_then_load_round_trip_witness:
  "apply_settings plain_enum_eq json_dumps_indent4
     \<lparr>clientSelection = ''OPEN_AI'', openai_api_key_input = ''sk-0123456789abcdef'',
      azure_api_key_input = [], azure_endpoint_input = [],
      azure_api_version_input = [], model_selection = ''gpt-4''\<rparr>
     Map.empty Map.empty
   = (Accepted,
      [file_path \<mapsto> json_dumps_indent4 [(''ai_client_type'', ''OPEN_AI''), (''model'', ''gpt-4''),
                                          (''api_version'', [])]],
      [''OPENAI_API_KEY'' \<mapsto> ''sk-0123456789abcdef'']) \<and>
   init_settings json_load_strings
     [file_path \<mapsto> json_dumps_indent4 [(''ai_client_type'', ''OPEN_AI''), (''model'', ''gpt-4''),
                                         (''api_version'', [])]]
   = Inr [(''ai_client_type'', ''OPEN_AI''), (''model'', ''gpt-4''), (''api_version'', [])]"
proof -
  let ?d = "\<lparr>clientSelection = ''OPEN_AI'', openai_api_key_input = ''sk-0123456789abcdef'',
      azure_api_key_input = [], azure_endpoint_input = [],
      azure_api_version_input = [], model_selection = ''gpt-4''\<rparr>"
  let ?S = "[(''ai_client_type'', ''OPEN_AI''), (''model'', ''gpt-4''), (''api_version'', [])]"
  have ok: "apply_settings plain_enum_eq json_dumps_indent4 ?d Map.empty Map.empty
            = (Accepted, [file_path \<mapsto> json_dumps_indent4 ?S],
               [''OPENAI_API_KEY'' \<mapsto> ''sk-0123456789abcdef''])"
    by (simp add: apply_settings_def plain_enum_eq_def Let_def save_environment_variable_def
        save_settings_def)
  have rt: "json_load_strings (json_dumps_indent4 ?S) = Inr ?S"
    by code_simp
  from apply_then_load_round_trip [of plain_enum_eq json_dumps_indent4 ?d Map.empty Map.empty
      "[file_path \<mapsto> json_dumps_indent4 ?S]" "[''OPENAI_API_KEY'' \<mapsto> ''sk-0123456789abcdef'']"
      json_load_strings] ok rt
  show ?thesis by simp
qed

text \<open>
  C9: when the settings file does not exist, \<open>load_settings\<close> returns the settings it was
  given and raises nothing, so that a fresh instance has the empty dictionary; looking
  any key up in it returns the default, the empty string for \<open>model\<close> with default
  the empty string.
\<close>

theorem load_without_file:
  assumes "fs file_path = None"
  shows "init_settings json_load fs = Inr [] \<and>
         load_settings json_load fs settings = Inr settings \<and>
         dict_get [] ''model'' [] = [] \<and>
         dict_get [] k dflt = dflt"
  using assms by (simp add: init_settings_def load_settings_def dict_get_def)

text \<open>C9 on the empty file system.\<close>

theorem load_without_file_witness:
  "init_settings json_load_strings Map.empty = Inr [] \<and> dict_get [] ''model'' [] = []"
  using load_without_file [of Map.empty json_load_strings "[]" "''model''" "[]"] by simp

text \<open>
  C10: \<open>save_environment_variable\<close> with the empty string leaves the environment as it
  is, for every variable name and every environment; and whatever \<open>apply_settings\<close> does,
  a credential field that is empty leaves its own environment variable unchanged.
\<close>

theorem empty_credential_is_noop:
  "save_environment_variable var_name [] env = env \<and>
   (openai_api_key_input d = [] \<longrightarrow>
      snd (snd (apply_settings enum_eq json_dumps d fs env)) ''OPENAI_API_KEY''
        = env ''OPENAI_API_KEY'') \<and>
   (azure_api_key_input d = [] \<longrightarrow>
      snd (snd (apply_settings enum_eq json_dumps d fs env)) ''AZURE_OPENAI_API_KEY''
        = env ''AZURE_OPENAI_API_KEY'') \<and>
   (azure_endpoint_input d = [] \<longrightarrow>
      snd (snd (apply_settings enum_eq json_dumps d fs env)) ''AZURE_OPENAI_ENDPOINT''
        = env ''AZURE_OPENAI_ENDPOINT'')"
  by (simp add: apply_settings_def Let_def save_environment_variable_def)

text \<open>C10 on a dialog whose OpenAI key field is empty while a key is stored.\<close>

theorem empty_credential_is_noop_witness:
  "snd (snd (apply_settings plain_enum_eq json_dumps_indent4
     \<lparr>clientSelection = ''OPEN_AI'', openai_api_key_input = [],
      azure_api_key_input = [], azure_endpoint_input = [],
      azure_api_version_input = [], model_selection = ''gpt-4''\<rparr>
     Map.empty [''OPENAI_API_KEY'' \<mapsto> ''sk-0123456789abcdef''])) ''OPENAI_API_KEY''
   = Some ''sk-0123456789abcdef''"
  using empty_credential_is_noop [where d = "\<lparr>clientSelection = ''OPEN_AI'',
      openai_api_key_input = [], azure_api_key_input = [], azure_endpoint_input = [],
      azure_api_version_input = [], model_selection = ''gpt-4''\<rparr>"
      and enum_eq = plain_enum_eq and json_dumps = json_dumps_indent4 and fs = Map.empty
      and env = "[''OPENAI_API_KEY'' \<mapsto> ''sk-0123456789abcdef'']"]
  by simp

end
